theory Spec2Isabelle
  imports Main "HOL-Library.AList"
begin

section \<open>JavaScript values and objects\<close>

text \<open>
  The server handles JSON request bodies and stores plain JavaScript objects. A value is
  one of the JSON kinds, or a \<open>Date\<close> (the only non-JSON value the server creates, in
  \<open>createTask\<close>). The numbers that matter here are whole: the server computes with
  no number but its two id counters, whose arithmetic is \<open>js_incr\<close> below.
  An object is a finite map from property names to values; an absent property reads as
  \<open>undefined\<close>, which is \<open>None\<close> here. The object spread \<open>{...a, ...b}\<close> is \<open>a ++ b\<close>,
  and \<open>{...a, k: v}\<close> is \<open>a(k := v)\<close>.
\<close>

datatype jsval =
    JNull
  | JBool bool
  | JNum int
  | JStr string
  | JDate nat
  | JArr "jsval list"
  | JObj "(string \<times> jsval) list"

type_synonym obj = "string \<rightharpoonup> jsval"

text \<open>
  \<open>a === b\<close>. Primitives compare by value; arrays, objects and dates compare by
  reference, and the two sides of every comparison in the server come from different
  requests, hence are never the same reference.
\<close>

definition is_reference :: "jsval option \<Rightarrow> bool" where
  "is_reference v =
     (case v of
        Some (JArr _) \<Rightarrow> True
      | Some (JObj _) \<Rightarrow> True
      | Some (JDate _) \<Rightarrow> True
      | _ \<Rightarrow> False)"

definition strict_eq :: "jsval option \<Rightarrow> jsval option \<Rightarrow> bool" where
  "strict_eq a b \<longleftrightarrow> a = b \<and> \<not> is_reference a"

text \<open>\<open>!v\<close>: the values JavaScript takes for false in a condition.\<close>

definition falsy :: "jsval option \<Rightarrow> bool" where
  "falsy v =
     (case v of
        None \<Rightarrow> True
      | Some JNull \<Rightarrow> True
      | Some (JBool b) \<Rightarrow> \<not> b
      | Some (JNum n) \<Rightarrow> n = 0
      | Some (JStr x) \<Rightarrow> x = []
      | _ \<Rightarrow> False)"

definition is_string :: "jsval option \<Rightarrow> bool" where
  "is_string v = (case v of Some (JStr _) \<Rightarrow> True | _ \<Rightarrow> False)"

definition is_number :: "jsval option \<Rightarrow> bool" where
  "is_number v = (case v of Some (JNum _) \<Rightarrow> True | _ \<Rightarrow> False)"

section \<open>shared/schema.ts: the validation schemas\<close>

text \<open>
  \<open>createInsertSchema(tasks).pick({...})\<close> derives the accepted shape from the table
  columns: \<open>title\<close> is \<open>text, notNull\<close> without default, so a required string;
  \<open>description\<close> is a nullable \<open>text\<close>, so optional and possibly \<open>null\<close>; \<open>status\<close> is
  \<open>text, notNull\<close> with a default, so an optional string; \<open>userId\<close> is a \<open>serial\<close>, so an
  optional number. Properties outside the shape do not make \<open>safeParse\<close> fail (the
  client's status toggle relies on it: it sends the whole task back in its PUT).
  Only \<open>.success\<close> is used by the routes, so a schema is a predicate here.
\<close>

definition updateTaskSchema :: "obj \<Rightarrow> bool" where
  "updateTaskSchema b \<longleftrightarrow>
     is_string (b ''title'') \<and>
     (b ''description'' = None \<or> b ''description'' = Some JNull \<or> is_string (b ''description'')) \<and>
     (b ''status'' = None \<or> is_string (b ''status''))"

definition insertTaskSchema :: "obj \<Rightarrow> bool" where
  "insertTaskSchema b \<longleftrightarrow>
     is_string (b ''title'') \<and>
     (b ''description'' = None \<or> b ''description'' = Some JNull \<or> is_string (b ''description'')) \<and>
     (b ''status'' = None \<or> is_string (b ''status'')) \<and>
     (b ''userId'' = None \<or> is_number (b ''userId''))"

section \<open>server/storage.ts: MemStorage\<close>

text \<open>
  The two \<open>Map<number, _>\<close> fields are association lists in insertion order, which is the
  order \<open>Map.values()\<close> iterates in: \<open>Map.set\<close> replaces the value of a present key in
  place and appends an absent key (\<open>AList.update\<close>), \<open>Map.delete\<close> removes the key
  (\<open>AList.delete\<close>), \<open>Map.get\<close> is \<open>map_of\<close>. The session store is not part of the model:
  a request carries the user id its session is bound to.
\<close>

record MemStorage =
  users :: "(int \<times> obj) list"
  tasks :: "(int \<times> obj) list"
  currentUserId :: int
  currentTaskId :: int

datatype error = Error string

text \<open>
  Every mutator is an \<open>async\<close> method: it resolves with a value and the updated store
  (\<open>Inr\<close>) or rejects with an error (\<open>Inl\<close>).
\<close>

type_synonym 'a promise = "error + ('a \<times> MemStorage)"

text \<open>
  \<open>n++\<close> on a counter. A JavaScript number is a double: adding 1 to a whole number below
  \<open>2^53\<close> is exact, and \<open>2^53 + 1\<close> is not a double and rounds back to \<open>2^53\<close>, where the
  counter stays. A counter that starts at 1 takes the values from 1 to \<open>2^53\<close> only.
\<close>

definition js_incr :: "int \<Rightarrow> int" where
  "js_incr n = (if n < 2 ^ 53 then n + 1 else n)"

definition MemStorage_new :: MemStorage where
  "MemStorage_new = \<lparr>users = [], tasks = [], currentUserId = 1, currentTaskId = 1\<rparr>"

definition getUser :: "int \<Rightarrow> MemStorage \<Rightarrow> obj option" where
  "getUser ident s = map_of (users s) ident"

definition getUserByEmail :: "jsval option \<Rightarrow> MemStorage \<Rightarrow> obj option" where
  "getUserByEmail email s = find (\<lambda>user. strict_eq (user ''email'') email) (map snd (users s))"

definition createUser :: "obj \<Rightarrow> MemStorage \<Rightarrow> obj promise" where
  "createUser insertUser s =
     (let ident = currentUserId s;
          s1 = s\<lparr>currentUserId := js_incr ident\<rparr>;
          user = insertUser(''id'' \<mapsto> JNum ident)
      in Inr (user, s1\<lparr>users := AList.update ident user (users s1)\<rparr>))"

definition getTasksByUserId :: "jsval option \<Rightarrow> MemStorage \<Rightarrow> obj list" where
  "getTasksByUserId userId s = filter (\<lambda>task. strict_eq (task ''userId'') userId) (map snd (tasks s))"

definition getTaskById :: "int \<Rightarrow> MemStorage \<Rightarrow> obj option" where
  "getTaskById ident s = map_of (tasks s) ident"

text \<open>\<open>now\<close> is the reading of the clock that \<open>new Date()\<close> takes.\<close>

definition createTask :: "nat \<Rightarrow> obj \<Rightarrow> MemStorage \<Rightarrow> obj promise" where
  "createTask now insertTask s =
     (let ident = currentTaskId s;
          s1 = s\<lparr>currentTaskId := js_incr ident\<rparr>;
          createdAt = JDate now;
          task = insertTask(''id'' \<mapsto> JNum ident, ''createdAt'' \<mapsto> createdAt)
      in Inr (task, s1\<lparr>tasks := AList.update ident task (tasks s1)\<rparr>))"

definition updateTask :: "int \<Rightarrow> obj \<Rightarrow> MemStorage \<Rightarrow> obj promise" where
  "updateTask ident taskData s =
     (case map_of (tasks s) ident of
        None \<Rightarrow> Inl (Error ''Task not found'')
      | Some task \<Rightarrow>
          (let updatedTask = task ++ taskData
           in Inr (updatedTask, s\<lparr>tasks := AList.update ident updatedTask (tasks s)\<rparr>)))"

definition deleteTask :: "int \<Rightarrow> MemStorage \<Rightarrow> unit promise" where
  "deleteTask ident s = Inr ((), s\<lparr>tasks := AList.delete ident (tasks s)\<rparr>)"

text \<open>
  A history of the store: any sequence of mutator calls. A call that rejects leaves the
  store as it was.
\<close>

datatype storage_op =
    CreateUser obj
  | CreateTask nat obj
  | UpdateTask int obj
  | DeleteTask int

definition settle :: "'a promise \<Rightarrow> MemStorage \<Rightarrow> MemStorage" where
  "settle p s = (case p of Inl _ \<Rightarrow> s | Inr (_, s') \<Rightarrow> s')"

text \<open>The id of the record a creation resolved with.\<close>

definition created_id :: "obj promise \<Rightarrow> jsval option" where
  "created_id p = (case p of Inl _ \<Rightarrow> None | Inr (record, _) \<Rightarrow> record ''id'')"

fun exec_op :: "storage_op \<Rightarrow> MemStorage \<Rightarrow> MemStorage" where
  "exec_op (CreateUser u) s = settle (createUser u s) s"
| "exec_op (CreateTask now t) s = settle (createTask now t s) s"
| "exec_op (UpdateTask ident d) s = settle (updateTask ident d s) s"
| "exec_op (DeleteTask ident) s = settle (deleteTask ident s) s"

fun exec_ops :: "storage_op list \<Rightarrow> MemStorage \<Rightarrow> MemStorage" where
  "exec_ops [] s = s"
| "exec_ops (x # xs) s = exec_ops xs (exec_op x s)"

text \<open>
  The counters are ahead of every key in use: true of the new store, and kept by every
  mutator as long as the counters are below \<open>2^53\<close>.
\<close>

definition fresh_ids :: "MemStorage \<Rightarrow> bool" where
  "fresh_ids s \<longleftrightarrow>
     (\<forall>k \<in> fst ` set (users s). k < currentUserId s) \<and>
     (\<forall>k \<in> fst ` set (tasks s). k < currentTaskId s)"

section \<open>HTTP responses\<close>

text \<open>
  \<open>Json_message m\<close> is the body \<open>{message: m}\<close>; \<open>Json_invalid m\<close> is
  \<open>{message: m, errors: ...}\<close>, the validation report itself left out; \<open>Text\<close> is a
  plain-text body. \<open>No_response\<close> is a handler whose promise rejected with nothing to
  catch it: no response is written.
\<close>

datatype body =
    No_body
  | Json_message string
  | Json_invalid string
  | Json_object obj
  | Json_array "obj list"
  | Text string

datatype response = Response (status: nat) (payload: body) | No_response

section \<open>server/auth.ts\<close>

text \<open>
  The primitives of Node's \<open>crypto\<close> and \<open>Buffer\<close> are parameters: \<open>scrypt password salt\<close>
  is the derived key (a byte string), \<open>toHex\<close> is \<open>buf.toString("hex")\<close>, \<open>fromHex\<close> is
  \<open>Buffer.from(_, "hex")\<close>. The salt that \<open>randomBytes(16).toString("hex")\<close> draws is an
  argument of \<open>hashPassword\<close>.
\<close>

record crypto =
  scrypt :: "string \<Rightarrow> string \<Rightarrow> string"
  toHex :: "string \<Rightarrow> string"
  fromHex :: "string \<Rightarrow> string"

definition hashPassword :: "crypto \<Rightarrow> string \<Rightarrow> string \<Rightarrow> string" where
  "hashPassword c salt password = toHex c (scrypt c password salt) @ ''.'' @ salt"

text \<open>\<open>s.split(d)\<close> for a one-character separator.\<close>

fun split_on :: "char \<Rightarrow> string \<Rightarrow> string list" where
  "split_on d [] = [[]]"
| "split_on d (ch # cs) =
     (if ch = d then [] # split_on d cs
      else (case split_on d cs of
              [] \<Rightarrow> [[ch]]
            | w # ws \<Rightarrow> (ch # w) # ws))"

text \<open>
  \<open>comparePasswords\<close> throws where the stored value is not a string (\<open>split\<close> is not a
  function), has no second segment (\<open>scrypt\<close> refuses an undefined salt), where the
  supplied password is not a string (\<open>scrypt\<close> refuses it), or where the stored hash
  decodes to a buffer of another length than the derived key (\<open>timingSafeEqual\<close>
  refuses).
\<close>

definition comparePasswords :: "crypto \<Rightarrow> jsval option \<Rightarrow> jsval option \<Rightarrow> error + bool" where
  "comparePasswords c supplied stored =
     (case stored of
        Some (JStr st) \<Rightarrow>
          (case split_on CHR ''.'' st of
             hashed # salt # _ \<Rightarrow>
               (case supplied of
                  Some (JStr password) \<Rightarrow>
                    (let hashedBuf = fromHex c hashed;
                         suppliedBuf = scrypt c password salt
                     in if length hashedBuf \<noteq> length suppliedBuf then Inl (Error ''RangeError'')
                        else Inr (hashedBuf = suppliedBuf))
                | _ \<Rightarrow> Inl (Error ''TypeError''))
           | _ \<Rightarrow> Inl (Error ''TypeError''))
      | _ \<Rightarrow> Inl (Error ''TypeError''))"

text \<open>
  The verify callback of the local strategy. It is called with the two credentials of
  the login request, whatever JSON values they are; \<open>Verify_fail m\<close> is
  \<open>done(null, false, {message: m})\<close>, \<open>Verify_ok user\<close> is \<open>done(null, user)\<close>, and
  \<open>Verify_threw\<close> is the rejection of the callback's promise, with \<open>done\<close> never called.
\<close>

datatype verify_result = Verify_fail string | Verify_ok obj | Verify_threw error

definition verify :: "crypto \<Rightarrow> jsval option \<Rightarrow> jsval option \<Rightarrow> MemStorage \<Rightarrow> verify_result" where
  "verify c email password s =
     (case getUserByEmail email s of
        None \<Rightarrow> Verify_fail ''Invalid email or password''
      | Some user \<Rightarrow>
          (case comparePasswords c password (user ''password'') of
             Inl e \<Rightarrow> Verify_threw e
           | Inr False \<Rightarrow> Verify_fail ''Invalid email or password''
           | Inr True \<Rightarrow> Verify_ok user))"

text \<open>
  \<open>POST /api/login\<close>, with \<open>email\<close> and \<open>password\<close> the values that the local strategy
  finds under these two names in the request. \<open>passport.authenticate("local")\<close> runs
  first: the strategy fails with status 400 when \<open>!username || !password\<close>, before the
  verify callback is called, and passport answers a failure itself, with the status and
  its standard text: 400 \<open>Bad Request\<close> there, 401 \<open>Unauthorized\<close> after a failed
  verification. After a successful one the route sends the user. The store is not
  written.
\<close>

definition post_login :: "crypto \<Rightarrow> jsval option \<Rightarrow> jsval option \<Rightarrow> MemStorage \<Rightarrow> response" where
  "post_login c email password s =
     (if falsy email \<or> falsy password then Response 400 (Text ''Bad Request'')
      else (case verify c email password s of
              Verify_fail _ \<Rightarrow> Response 401 (Text ''Unauthorized'')
            | Verify_ok user \<Rightarrow> Response 200 (Json_object user)
            | Verify_threw _ \<Rightarrow> No_response))"

text \<open>
  \<open>POST /api/register\<close>. \<open>hashPassword\<close> throws for a password that is not a string, and
  nothing catches it.
\<close>

definition post_register :: "crypto \<Rightarrow> string \<Rightarrow> obj \<Rightarrow> MemStorage \<Rightarrow> response \<times> MemStorage" where
  "post_register c salt reqBody s =
     (case getUserByEmail (reqBody ''email'') s of
        Some existingUser \<Rightarrow> (Response 400 (Json_message ''Email already in use''), s)
      | None \<Rightarrow>
          (case reqBody ''password'' of
             Some (JStr password) \<Rightarrow>
               (case createUser (reqBody(''password'' \<mapsto> JStr (hashPassword c salt password))) s of
                  Inl _ \<Rightarrow> (No_response, s)
                | Inr (user, s') \<Rightarrow> (Response 201 (Json_object user), s'))
           | _ \<Rightarrow> (No_response, s)))"

section \<open>server/routes.ts\<close>

text \<open>
  \<open>sess\<close> is the user id the request's session is bound to (\<open>None\<close> without a session);
  \<open>deserializeUser\<close> loads \<open>req.user\<close> from it, and \<open>req.isAuthenticated()\<close> holds when
  that gave a user.
\<close>

definition req_user :: "int option \<Rightarrow> MemStorage \<Rightarrow> obj option" where
  "req_user sess s = (case sess of None \<Rightarrow> None | Some ident \<Rightarrow> getUser ident s)"

definition get_tasks :: "int option \<Rightarrow> MemStorage \<Rightarrow> response" where
  "get_tasks sess s =
     (case req_user sess s of
        None \<Rightarrow> Response 401 (Json_message ''Unauthorized'')
      | Some user \<Rightarrow> Response 200 (Json_array (getTasksByUserId (user ''id'') s)))"

definition post_tasks :: "nat \<Rightarrow> int option \<Rightarrow> obj \<Rightarrow> MemStorage \<Rightarrow> response \<times> MemStorage" where
  "post_tasks now sess reqBody s =
     (case req_user sess s of
        None \<Rightarrow> (Response 401 (Json_message ''Unauthorized''), s)
      | Some user \<Rightarrow>
          (let userId = user ''id'';
               taskData = reqBody(''userId'' := userId)
           in if \<not> insertTaskSchema taskData
              then (Response 400 (Json_invalid ''Invalid task data''), s)
              else (case createTask now taskData s of
                      Inl _ \<Rightarrow> (Response 500 (Json_message ''Failed to create task''), s)
                    | Inr (task, s') \<Rightarrow> (Response 201 (Json_object task), s'))))"

text \<open>
  In the three routes below \<open>taskId\<close> is the result of \<open>parseInt(req.params.id)\<close>, with
  \<open>None\<close> for \<open>NaN\<close>.
\<close>

definition get_task :: "int option \<Rightarrow> int option \<Rightarrow> MemStorage \<Rightarrow> response" where
  "get_task sess taskId s =
     (case req_user sess s of
        None \<Rightarrow> Response 401 (Json_message ''Unauthorized'')
      | Some user \<Rightarrow>
          (case taskId of
             None \<Rightarrow> Response 400 (Json_message ''Invalid task ID'')
           | Some tid \<Rightarrow>
               (case getTaskById tid s of
                  None \<Rightarrow> Response 404 (Json_message ''Task not found'')
                | Some task \<Rightarrow>
                    if \<not> strict_eq (task ''userId'') (user ''id'')
                    then Response 403 (Json_message ''Forbidden'')
                    else Response 200 (Json_object task))))"

definition put_task :: "int option \<Rightarrow> int option \<Rightarrow> obj \<Rightarrow> MemStorage \<Rightarrow> response \<times> MemStorage" where
  "put_task sess taskId reqBody s =
     (case req_user sess s of
        None \<Rightarrow> (Response 401 (Json_message ''Unauthorized''), s)
      | Some user \<Rightarrow>
          (case taskId of
             None \<Rightarrow> (Response 400 (Json_message ''Invalid task ID''), s)
           | Some tid \<Rightarrow>
               if \<not> updateTaskSchema reqBody
               then (Response 400 (Json_invalid ''Invalid task data''), s)
               else (case getTaskById tid s of
                       None \<Rightarrow> (Response 404 (Json_message ''Task not found''), s)
                     | Some existingTask \<Rightarrow>
                         if \<not> strict_eq (existingTask ''userId'') (user ''id'')
                         then (Response 403 (Json_message ''Forbidden''), s)
                         else (case updateTask tid reqBody s of
                                 Inl _ \<Rightarrow> (Response 500 (Json_message ''Failed to update task''), s)
                               | Inr (updatedTask, s') \<Rightarrow> (Response 200 (Json_object updatedTask), s')))))"

definition delete_task :: "int option \<Rightarrow> int option \<Rightarrow> MemStorage \<Rightarrow> response \<times> MemStorage" where
  "delete_task sess taskId s =
     (case req_user sess s of
        None \<Rightarrow> (Response 401 (Json_message ''Unauthorized''), s)
      | Some user \<Rightarrow>
          (case taskId of
             None \<Rightarrow> (Response 400 (Json_message ''Invalid task ID''), s)
           | Some tid \<Rightarrow>
               (case getTaskById tid s of
                  None \<Rightarrow> (Response 404 (Json_message ''Task not found''), s)
                | Some existingTask \<Rightarrow>
                    if \<not> strict_eq (existingTask ''userId'') (user ''id'')
                    then (Response 403 (Json_message ''Forbidden''), s)
                    else (case deleteTask tid s of
                            Inl _ \<Rightarrow> (Response 500 (Json_message ''Failed to delete task''), s)
                          | Inr (_, s') \<Rightarrow> (Response 204 No_body, s')))))"

section \<open>Example data\<close>

text \<open>A stand-in for the crypto primitives, to run the handlers on examples.\<close>

definition toy_crypto :: crypto where
  "toy_crypto =
     \<lparr>scrypt = (\<lambda>password salt. take 4 (rev password @ salt @ ''0000'')),
      toHex = (\<lambda>b. b), fromHex = (\<lambda>h. h)\<rparr>"

definition ann :: obj where
  "ann = [''name'' \<mapsto> JStr ''Ann'', ''email'' \<mapsto> JStr ''ann@x.com'', ''password'' \<mapsto> JStr ''password123'']"

definition bob :: obj where
  "bob = [''name'' \<mapsto> JStr ''Bob'', ''email'' \<mapsto> JStr ''bob@x.com'', ''password'' \<mapsto> JStr ''hunter2hunter2'']"

text \<open>The user records that registering Ann, then Bob, stores in a new store.\<close>

definition ann_user :: obj where
  "ann_user = ann(''password'' \<mapsto> JStr ''321d.17'', ''id'' \<mapsto> JNum 1)"

definition bob_user :: obj where
  "bob_user = bob(''password'' \<mapsto> JStr ''2ret.5a'', ''id'' \<mapsto> JNum 2)"

definition one_user :: MemStorage where
  "one_user = \<lparr>users = [(1, ann_user)], tasks = [], currentUserId = 2, currentTaskId = 1\<rparr>"

definition two_users :: MemStorage where
  "two_users =
     \<lparr>users = [(1, ann_user), (2, bob_user)], tasks = [], currentUserId = 3, currentTaskId = 1\<rparr>"

text \<open>... and the task that Ann's \<open>POST /api/tasks\<close> with \<open>{title: "Buy milk"}\<close> stores.\<close>

definition milk :: obj where
  "milk = [''title'' \<mapsto> JStr ''Buy milk'', ''userId'' \<mapsto> JNum 1, ''id'' \<mapsto> JNum 1,
           ''createdAt'' \<mapsto> JDate 1000]"

definition ann_task :: MemStorage where
  "ann_task =
     \<lparr>users = [(1, ann_user), (2, bob_user)], tasks = [(1, milk)], currentUserId = 3,
      currentTaskId = 2\<rparr>"

text \<open>A body for \<open>PUT /api/tasks/1\<close> that passes \<open>updateTaskSchema\<close> and names another owner.\<close>

definition milk_update :: obj where
  "milk_update = [''title'' \<mapsto> JStr ''Buy milk'', ''userId'' \<mapsto> JNum 2]"

text \<open>The store once Bob has a task as well.\<close>

definition report :: obj where
  "report = [''title'' \<mapsto> JStr ''Write report'', ''userId'' \<mapsto> JNum 2, ''id'' \<mapsto> JNum 2,
             ''createdAt'' \<mapsto> JDate 2000]"

definition two_tasks :: MemStorage where
  "two_tasks =
     \<lparr>users = [(1, ann_user), (2, bob_user)], tasks = [(1, milk), (2, report)], currentUserId = 3,
      currentTaskId = 3\<rparr>"

text \<open>The store after \<open>2^53 - 1\<close> tasks have been created in a new one.\<close>

definition at_limit :: MemStorage where
  "at_limit =
     exec_ops (replicate 9007199254740991 (CreateTask 0 [''title'' \<mapsto> JStr ''Buy milk'']))
       MemStorage_new"

section \<open>Facts about the containers\<close>




section \<open>The id counters\<close>

lemma js_incr_mono: "n \<le> js_incr n"
  by (simp add: js_incr_def)

lemma js_incr_below: "n < 2 ^ 53 \<Longrightarrow> js_incr n = n + 1"
  by (simp add: js_incr_def)

lemma js_incr_stuck: "js_incr (2 ^ 53) = 2 ^ 53"
  by (simp add: js_incr_def)

lemma created_id_createTask: "created_id (createTask now t s) = Some (JNum (currentTaskId s))"
  by (simp add: created_id_def createTask_def Let_def)

lemma currentTaskId_createTask:
  "currentTaskId (settle (createTask now t s) s) = js_incr (currentTaskId s)"
  by (simp add: settle_def createTask_def Let_def)

lemma fresh_ids_new: "fresh_ids MemStorage_new"
  by (simp add: fresh_ids_def MemStorage_new_def)

lemma fresh_ids_exec_op:
  assumes f: "fresh_ids s"
    and u: "currentUserId s < 2 ^ 53"
    and t: "currentTaskId s < 2 ^ 53"
  shows "fresh_ids (exec_op x s)"
proof (cases x)
  case (CreateUser v)
  from f u show ?thesis
    by (auto simp: CreateUser fresh_ids_def settle_def createUser_def Let_def AList.dom_update
        js_incr_def)
next
  case (CreateTask now v)
  from f t show ?thesis
    by (auto simp: CreateTask fresh_ids_def settle_def createTask_def Let_def AList.dom_update
        js_incr_def)
next
  case (UpdateTask i d)
  show ?thesis
  proof (cases "map_of (tasks s) i")
    case None
    with f show ?thesis
      by (simp add: UpdateTask settle_def updateTask_def)
  next
    case (Some task)
    then have "i \<in> fst ` set (tasks s)"
      by (auto dest!: map_of_SomeD intro: rev_image_eqI)
    then have "fst ` set (AList.update i (task ++ d) (tasks s)) = fst ` set (tasks s)"
      by (auto simp: AList.dom_update)
    with f Some show ?thesis
      by (simp add: UpdateTask fresh_ids_def settle_def updateTask_def Let_def)
  qed
next
  case (DeleteTask i)
  from f show ?thesis
    by (auto simp: DeleteTask fresh_ids_def settle_def deleteTask_def AList.delete_eq)
qed

lemma currentTaskId_exec_op: "currentTaskId s \<le> currentTaskId (exec_op x s)"
  by (cases x)
    (auto simp: settle_def createUser_def createTask_def updateTask_def deleteTask_def Let_def
      js_incr_def split: option.splits)

lemma currentUserId_exec_op: "currentUserId s \<le> currentUserId (exec_op x s)"
  by (cases x)
    (auto simp: settle_def createUser_def createTask_def updateTask_def deleteTask_def Let_def
      js_incr_def split: option.splits)

lemma currentTaskId_exec_ops: "currentTaskId s \<le> currentTaskId (exec_ops xs s)"
proof (induction xs arbitrary: s)
  case Nil
  show ?case by simp
next
  case (Cons x xs)
  have "currentTaskId s \<le> currentTaskId (exec_op x s)"
    by (rule currentTaskId_exec_op)
  also have "\<dots> \<le> currentTaskId (exec_ops xs (exec_op x s))"
    by (rule Cons.IH)
  finally show ?case by simp
qed

lemma currentUserId_exec_ops: "currentUserId s \<le> currentUserId (exec_ops xs s)"
proof (induction xs arbitrary: s)
  case Nil
  show ?case by simp
next
  case (Cons x xs)
  have "currentUserId s \<le> currentUserId (exec_op x s)"
    by (rule currentUserId_exec_op)
  also have "\<dots> \<le> currentUserId (exec_ops xs (exec_op x s))"
    by (rule Cons.IH)
  finally show ?case by simp
qed

text \<open>
  Along a history that ends with both counters below \<open>2^53\<close>, they were below it all the
  way, and the counters stayed ahead of the keys.
\<close>

lemma fresh_ids_exec_ops:
  assumes "fresh_ids s"
    and "currentUserId (exec_ops xs s) < 2 ^ 53"
    and "currentTaskId (exec_ops xs s) < 2 ^ 53"
  shows "fresh_ids (exec_ops xs s)"
  using assms
proof (induction xs arbitrary: s)
  case Nil
  then show ?case by simp
next
  case (Cons x xs)
  have "currentUserId s \<le> currentUserId (exec_ops (x # xs) s)"
    by (rule currentUserId_exec_ops)
  with Cons.prems(2) have u: "currentUserId s < 2 ^ 53" by simp
  have "currentTaskId s \<le> currentTaskId (exec_ops (x # xs) s)"
    by (rule currentTaskId_exec_ops)
  with Cons.prems(3) have t: "currentTaskId s < 2 ^ 53" by simp
  from Cons.prems(1) u t have "fresh_ids (exec_op x s)"
    by (rule fresh_ids_exec_op)
  with Cons.IH [of "exec_op x s"] Cons.prems(2,3) show ?case by simp
qed

text \<open>The counters never leave the range from their start to \<open>2^53\<close>.\<close>

lemma counters_in_range:
  assumes "currentUserId s \<le> 2 ^ 53" and "currentTaskId s \<le> 2 ^ 53"
  shows "currentUserId (exec_op x s) \<le> 2 ^ 53 \<and> currentTaskId (exec_op x s) \<le> 2 ^ 53"
  using assms
  by (cases x)
    (auto simp: settle_def createUser_def createTask_def updateTask_def deleteTask_def Let_def
      js_incr_def split: option.splits)

text \<open>\<open>n\<close> creations in a row move the task counter up by \<open>n\<close>, as long as that stays within \<open>2^53\<close>.\<close>

lemma repeated_creation_counter:
  "currentTaskId s + int n \<le> 2 ^ 53 \<Longrightarrow>
   currentTaskId (exec_ops (replicate n (CreateTask now t)) s) = currentTaskId s + int n"
proof (induction n arbitrary: s)
  case 0
  show ?case by simp
next
  case (Suc n)
  from Suc.prems have below: "currentTaskId s < 2 ^ 53" by simp
  then have step: "currentTaskId (exec_op (CreateTask now t) s) = currentTaskId s + 1"
    by (simp add: currentTaskId_createTask js_incr_below)
  with Suc.prems have "currentTaskId (exec_op (CreateTask now t) s) + int n \<le> 2 ^ 53"
    by simp
  from Suc.IH [OF this] step show ?case by simp
qed

lemma currentTaskId_at_limit: "currentTaskId at_limit = 2 ^ 53"
proof -
  have b: "currentTaskId MemStorage_new + int 9007199254740991 \<le> 2 ^ 53"
    by (simp add: MemStorage_new_def)
  have "currentTaskId at_limit = currentTaskId MemStorage_new + int 9007199254740991"
    unfolding at_limit_def by (rule repeated_creation_counter [OF b])
  then show ?thesis
    by (simp add: MemStorage_new_def)
qed

section \<open>The routes write the store through its mutators\<close>

text \<open>
  A route leaves the store as it was or makes one mutator call, so what holds along every
  history of the store holds along every sequence of requests.
\<close>

lemma post_register_store_calls:
  "snd (post_register c salt reqBody s) = s \<or>
   snd (post_register c salt reqBody s) =
     exec_op (CreateUser (reqBody(''password'' \<mapsto> JStr (hashPassword c salt
       (case reqBody ''password'' of Some (JStr password) \<Rightarrow> password | _ \<Rightarrow> []))))) s"
  by (auto simp: post_register_def settle_def split: option.splits jsval.splits sum.splits)

lemma post_tasks_store_calls:
  "snd (post_tasks now sess reqBody s) = s \<or>
   snd (post_tasks now sess reqBody s) =
     exec_op (CreateTask now
       (reqBody(''userId'' := (case req_user sess s of None \<Rightarrow> None | Some user \<Rightarrow> user ''id'')))) s"
  by (auto simp: post_tasks_def settle_def Let_def split: option.splits sum.splits)

lemma put_task_store_calls:
  "snd (put_task sess taskId reqBody s) = s \<or>
   snd (put_task sess taskId reqBody s) = exec_op (UpdateTask (the taskId) reqBody) s"
  by (auto simp: put_task_def settle_def split: option.splits sum.splits)

lemma delete_task_store_calls:
  "snd (delete_task sess taskId s) = s \<or>
   snd (delete_task sess taskId s) = exec_op (DeleteTask (the taskId)) s"
  by (auto simp: delete_task_def settle_def split: option.splits sum.splits)

lemma routes_keep_fresh_ids:
  assumes f: "fresh_ids s"
    and u: "currentUserId s < 2 ^ 53"
    and t: "currentTaskId s < 2 ^ 53"
  shows "fresh_ids (snd (post_register c salt reqBody s))"
    and "fresh_ids (snd (post_tasks now sess reqBody s))"
    and "fresh_ids (snd (put_task sess taskId reqBody s))"
    and "fresh_ids (snd (delete_task sess taskId s))"
proof -
  note step = fresh_ids_exec_op [OF f u t]
  show "fresh_ids (snd (post_register c salt reqBody s))"
    using f post_register_store_calls [of c salt reqBody s] step
    by metis
  show "fresh_ids (snd (post_tasks now sess reqBody s))"
    using f post_tasks_store_calls [of now sess reqBody s] step
    by metis
  show "fresh_ids (snd (put_task sess taskId reqBody s))"
    using f put_task_store_calls [of sess taskId reqBody s] step
    by metis
  show "fresh_ids (snd (delete_task sess taskId s))"
    using f delete_task_store_calls [of sess taskId s] step
    by metis
qed

section \<open>The example stores are reached through the API\<close>

lemma register_ann:
  "post_register toy_crypto ''17'' ann MemStorage_new = (Response 201 (Json_object ann_user), one_user)"
  by (simp add: post_register_def getUserByEmail_def MemStorage_new_def createUser_def
      hashPassword_def toy_crypto_def ann_def ann_user_def one_user_def Let_def js_incr_def)

lemma register_bob:
  "post_register toy_crypto ''5a'' bob one_user = (Response 201 (Json_object bob_user), two_users)"
  by (simp add: post_register_def getUserByEmail_def createUser_def strict_eq_def
      hashPassword_def toy_crypto_def bob_def bob_user_def one_user_def two_users_def
      ann_user_def ann_def Let_def js_incr_def)

lemma ann_posts_milk:
  "post_tasks 1000 (Some 1) [''title'' \<mapsto> JStr ''Buy milk''] two_users =
     (Response 201 (Json_object milk), ann_task)"
  by (simp add: post_tasks_def req_user_def getUser_def two_users_def ann_user_def
      insertTaskSchema_def is_string_def is_number_def createTask_def milk_def ann_task_def Let_def
      js_incr_def)

lemma bob_posts_report:
  "post_tasks 2000 (Some 2) [''title'' \<mapsto> JStr ''Write report''] ann_task =
     (Response 201 (Json_object report), two_tasks)"
  by (simp add: post_tasks_def req_user_def getUser_def ann_task_def bob_user_def
      insertTaskSchema_def is_string_def is_number_def createTask_def report_def two_tasks_def Let_def
      js_incr_def)

section \<open>What creation and update write\<close>

text \<open>
  \<open>createTask\<close> adds \<open>id\<close> and \<open>createdAt\<close> to what it is given and nothing else;
  \<open>POST /api/tasks\<close> gives it the request body with \<open>userId\<close> set to the requester's
  id. \<open>updateTask\<close> lets every property of its argument win over the stored one, and
  \<open>PUT /api/tasks/:id\<close> gives it the request body as it came.
\<close>

lemma createTask_stores_no_status:
  assumes "insertTask ''status'' = None"
    and "createTask now insertTask s = Inr (task, s')"
  shows "task ''status'' = None \<and> getTaskById (currentTaskId s) s' = Some task"
  using assms by (auto simp: createTask_def getTaskById_def Let_def AList.update_conv')

lemma post_tasks_sets_owner:
  assumes "post_tasks now sess reqBody s = (Response 201 (Json_object task), s')"
  shows "\<exists>user. req_user sess s = Some user \<and> task ''userId'' = user ''id'' \<and>
           task ''status'' = reqBody ''status'' \<and>
           getTaskById (currentTaskId s) s' = Some task"
  using assms
  by (auto simp: post_tasks_def createTask_def getTaskById_def Let_def AList.update_conv'
      split: option.splits if_splits)

lemma updateTask_takes_userId:
  assumes "taskData ''userId'' = Some v"
    and "updateTask i taskData s = Inr (task, s')"
  shows "task ''userId'' = Some v \<and> getTaskById i s' = Some task"
  using assms
  by (auto simp: updateTask_def getTaskById_def Let_def AList.update_conv' split: option.splits)

lemma put_task_takes_userId:
  assumes "put_task sess taskId reqBody s = (Response 200 b, s')"
    and "reqBody ''userId'' = Some v"
  shows "\<exists>tid task. taskId = Some tid \<and> b = Json_object task \<and> task ''userId'' = Some v \<and>
           getTaskById tid s' = Some task"
  using assms
  by (auto simp: put_task_def updateTask_def getTaskById_def Let_def AList.update_conv'
      split: option.splits if_splits)

section \<open>Task Store\<close>

text \<open>
  C8: \<open>deleteTask\<close> never rejects, whether the id is present or not; deleting the same id
  again right away resolves as well and changes nothing more; deleting an absent id
  leaves the store as it was.
\<close>

theorem deleteTask_never_errors:
  "(\<exists>s'. deleteTask i s = Inr ((), s') \<and> deleteTask i s' = Inr ((), s')) \<and>
   (getTaskById i s = None \<longrightarrow> deleteTask i s = Inr ((), s))"
  by (simp add: deleteTask_def getTaskById_def AList.delete_idem map_of_eq_None_iff)

theorem deleteTask_never_errors_witness:
  "getTaskById 7 ann_task = None \<and> deleteTask 7 ann_task = Inr ((), ann_task)"
  using deleteTask_never_errors [of 7 ann_task]
  by (simp add: getTaskById_def ann_task_def)

text \<open>
  C10: \<open>createTask\<close>, \<open>updateTask\<close> and \<open>deleteTask\<close> leave the task stored under every id
  other than the one created or targeted as it was, and leave the user map and its
  counter as they were.
\<close>

theorem task_mutators_frame:
  "(createTask now t s = Inr (task, s1) \<longrightarrow>
      users s1 = users s \<and> currentUserId s1 = currentUserId s \<and>
      (\<forall>k. k \<noteq> currentTaskId s \<longrightarrow> getTaskById k s1 = getTaskById k s)) \<and>
   (updateTask i d s = Inr (task', s2) \<longrightarrow>
      users s2 = users s \<and> currentUserId s2 = currentUserId s \<and>
      (\<forall>k. k \<noteq> i \<longrightarrow> getTaskById k s2 = getTaskById k s)) \<and>
   (deleteTask j s = Inr (u, s3) \<longrightarrow>
      users s3 = users s \<and> currentUserId s3 = currentUserId s \<and>
      (\<forall>k. k \<noteq> j \<longrightarrow> getTaskById k s3 = getTaskById k s))"
proof (intro conjI impI)
  assume "createTask now t s = Inr (task, s1)"
  then have s1: "s1 = s\<lparr>currentTaskId := js_incr (currentTaskId s),
      tasks := AList.update (currentTaskId s) task (tasks s)\<rparr>"
    by (auto simp: createTask_def Let_def)
  show "users s1 = users s" "currentUserId s1 = currentUserId s"
    by (simp_all add: s1)
  show "\<forall>k. k \<noteq> currentTaskId s \<longrightarrow> getTaskById k s1 = getTaskById k s"
    by (simp add: s1 getTaskById_def AList.update_conv')
next
  assume "updateTask i d s = Inr (task', s2)"
  then have s2: "s2 = s\<lparr>tasks := AList.update i task' (tasks s)\<rparr>"
    by (auto simp: updateTask_def Let_def split: option.splits)
  show "users s2 = users s" "currentUserId s2 = currentUserId s"
    by (simp_all add: s2)
  show "\<forall>k. k \<noteq> i \<longrightarrow> getTaskById k s2 = getTaskById k s"
    by (simp add: s2 getTaskById_def AList.update_conv')
next
  assume "deleteTask j s = Inr (u, s3)"
  then have s3: "s3 = s\<lparr>tasks := AList.delete j (tasks s)\<rparr>"
    by (auto simp: deleteTask_def)
  show "users s3 = users s" "currentUserId s3 = currentUserId s"
    by (simp_all add: s3)
  show "\<forall>k. k \<noteq> j \<longrightarrow> getTaskById k s3 = getTaskById k s"
    by (simp add: s3 getTaskById_def)
qed

theorem task_mutators_frame_witness:
  "(\<exists>t1 s1. createTask 3000 milk_update two_tasks = Inr (t1, s1) \<and>
      users s1 = users two_tasks \<and> getTaskById 1 s1 = Some milk \<and> getTaskById 2 s1 = Some report) \<and>
   (\<exists>t2 s2. updateTask 1 milk_update two_tasks = Inr (t2, s2) \<and>
      users s2 = users two_tasks \<and> getTaskById 2 s2 = Some report) \<and>
   (\<exists>s3. deleteTask 1 two_tasks = Inr ((), s3) \<and>
      users s3 = users two_tasks \<and> getTaskById 2 s3 = Some report)"
proof -
  obtain t1 s1 where a: "createTask 3000 milk_update two_tasks = Inr (t1, s1)"
    by (simp add: createTask_def Let_def)
  obtain t2 s2 where b: "updateTask 1 milk_update two_tasks = Inr (t2, s2)"
    by (simp add: updateTask_def two_tasks_def Let_def)
  obtain s3 where c: "deleteTask 1 two_tasks = Inr ((), s3)"
    by (simp add: deleteTask_def)
  have g: "getTaskById 1 two_tasks = Some milk" "getTaskById 2 two_tasks = Some report"
    "currentTaskId two_tasks = 3"
    by (simp_all add: getTaskById_def two_tasks_def)
  from task_mutators_frame [of 3000 milk_update two_tasks t1 s1 1 milk_update t2 s2 1 "()" s3]
    a b c g show ?thesis
    by simp
qed

text \<open>
  C6 as stated, for every two consecutive creations, fails where the counter has reached
  \<open>2^53\<close>: after \<open>2^53 - 1\<close> creations in a new store, the next creation gets the id
  \<open>2^53\<close>, and so does the one right after it.
\<close>

theorem task_ids_repeat_at_limit_counterexample:
  "created_id (createTask 1000 [''title'' \<mapsto> JStr ''Buy milk''] at_limit) =
     Some (JNum 9007199254740992) \<and>
   created_id (createTask 2000 [''title'' \<mapsto> JStr ''Write report'']
       (settle (createTask 1000 [''title'' \<mapsto> JStr ''Buy milk''] at_limit) at_limit)) =
     Some (JNum 9007199254740992)"
proof -
  have "js_incr (currentTaskId at_limit) = currentTaskId at_limit"
    by (simp only: currentTaskId_at_limit js_incr_stuck)
  then have "currentTaskId (settle (createTask 1000 [''title'' \<mapsto> JStr ''Buy milk''] at_limit) at_limit) =
      currentTaskId at_limit"
    by (simp only: currentTaskId_createTask)
  then show ?thesis
    by (simp add: created_id_createTask currentTaskId_at_limit)
qed

text \<open>
  C6, amended: a task created while the task counter is below \<open>2^53\<close>, and a task
  created after it, whatever calls of the store come in between (none, or any creations,
  updates and deletions), get different ids, the later one strictly greater: no id is
  given out twice, also after a deletion.
\<close>

theorem task_ids_strictly_increase:
  assumes "createTask now1 t1 s = Inr (task1, s1)"
    and "createTask now2 t2 (exec_ops xs s1) = Inr (task2, s2)"
    and "currentTaskId s < 2 ^ 53"
  shows "\<exists>i j. task1 ''id'' = Some (JNum i) \<and> task2 ''id'' = Some (JNum j) \<and> i < j \<and> i \<noteq> j"
proof -
  from assms(1) have 1: "task1 ''id'' = Some (JNum (currentTaskId s))"
    and "currentTaskId s1 = js_incr (currentTaskId s)"
    by (auto simp: createTask_def Let_def)
  with assms(3) have s1: "currentTaskId s1 = currentTaskId s + 1"
    by (simp add: js_incr_below)
  from assms(2) have 2: "task2 ''id'' = Some (JNum (currentTaskId (exec_ops xs s1)))"
    by (auto simp: createTask_def Let_def)
  have "currentTaskId s1 \<le> currentTaskId (exec_ops xs s1)"
    by (rule currentTaskId_exec_ops)
  with s1 have "currentTaskId s < currentTaskId (exec_ops xs s1)"
    by simp
  with 1 2 show ?thesis by auto
qed

theorem task_ids_strictly_increase_witness:
  "createTask 1000 [''title'' \<mapsto> JStr ''Buy milk'', ''userId'' \<mapsto> JNum 1] two_users =
     Inr (milk, ann_task) \<and>
   createTask 2000 [''title'' \<mapsto> JStr ''Write report'', ''userId'' \<mapsto> JNum 2]
       (exec_ops [DeleteTask 1] ann_task) =
     Inr (report, ann_task\<lparr>tasks := [(2, report)], currentTaskId := 3\<rparr>) \<and>
   currentTaskId two_users < 2 ^ 53 \<and>
   (\<exists>i j. milk ''id'' = Some (JNum i) \<and> report ''id'' = Some (JNum j) \<and> i < j \<and> i \<noteq> j)"
proof -
  have a: "createTask 1000 [''title'' \<mapsto> JStr ''Buy milk'', ''userId'' \<mapsto> JNum 1] two_users =
     Inr (milk, ann_task)"
    by (simp add: createTask_def two_users_def milk_def ann_task_def Let_def js_incr_def)
  have b: "createTask 2000 [''title'' \<mapsto> JStr ''Write report'', ''userId'' \<mapsto> JNum 2]
       (exec_ops [DeleteTask 1] ann_task) =
     Inr (report, ann_task\<lparr>tasks := [(2, report)], currentTaskId := 3\<rparr>)"
    by (simp add: createTask_def deleteTask_def settle_def ann_task_def report_def Let_def
        js_incr_def)
  have c: "currentTaskId two_users < 2 ^ 53"
    by (simp add: two_users_def)
  from task_ids_strictly_increase [OF a b c] a b c show ?thesis
    by blast
qed

section \<open>Credential Store\<close>



section \<open>Registration and login\<close>

text \<open>
  C3 as stated, with status 409, fails: Ann is registered in \<open>two_users\<close>, and a second
  registration with her email is answered with 400.
\<close>

theorem register_existing_email_status_counterexample:
  "getUserByEmail (ann ''email'') two_users = Some ann_user \<and>
   post_register toy_crypto ''99'' ann two_users =
     (Response 400 (Json_message ''Email already in use''), two_users) \<and>
   status (fst (post_register toy_crypto ''99'' ann two_users)) \<noteq> 409"
  by (simp add: post_register_def getUserByEmail_def two_users_def ann_user_def ann_def
      strict_eq_def is_reference_def)

text \<open>
  C3, amended: a registration request whose email is that of a user already in the store
  is answered with status 400 and the message \<open>Email already in use\<close>, and the store, with
  the existing user record in it, is left as it was.
\<close>

theorem register_existing_email:
  assumes "(k, u) \<in> set (users s)"
    and "u ''email'' = Some (JStr email)"
    and "reqBody ''email'' = Some (JStr email)"
  shows "post_register c salt reqBody s = (Response 400 (Json_message ''Email already in use''), s)"
proof -
  from assms have "\<exists>x. x \<in> set (map snd (users s)) \<and> strict_eq (x ''email'') (reqBody ''email'')"
    by (force simp: strict_eq_def is_reference_def)
  then have "getUserByEmail (reqBody ''email'') s \<noteq> None"
    by (simp only: getUserByEmail_def find_None_iff not_not)
  then show ?thesis
    by (auto simp: post_register_def)
qed

theorem register_existing_email_witness:
  "(1, ann_user) \<in> set (users two_users) \<and>
   ann_user ''email'' = Some (JStr ''ann@x.com'') \<and>
   ann ''email'' = Some (JStr ''ann@x.com'') \<and>
   post_register toy_crypto ''99'' ann two_users =
     (Response 400 (Json_message ''Email already in use''), two_users)"
proof -
  have a: "(1, ann_user) \<in> set (users two_users)"
    by (simp add: two_users_def)
  have b: "ann_user ''email'' = Some (JStr ''ann@x.com'')"
    by (simp add: ann_user_def ann_def)
  have c: "ann ''email'' = Some (JStr ''ann@x.com'')"
    by (simp add: ann_def)
  from register_existing_email [where u = ann_user and reqBody = ann, OF a b c] a b c
  show ?thesis
    by simp
qed

text \<open>
  C4 as stated fails: the body of the 201 response to Ann's registration is the stored
  user record, and its \<open>password\<close> property is there, holding the stored salted hash.
\<close>

theorem register_response_password_counterexample:
  "post_register toy_crypto ''17'' ann MemStorage_new =
     (Response 201 (Json_object ann_user), one_user) \<and>
   getUser 1 one_user = Some ann_user \<and>
   hashPassword toy_crypto ''17'' ''password123'' = ''321d.17'' \<and>
   ann_user ''password'' = Some (JStr ''321d.17'') \<and>
   ann_user ''password'' \<noteq> None"
  by (simp add: post_register_def getUserByEmail_def MemStorage_new_def createUser_def
      hashPassword_def toy_crypto_def ann_def ann_user_def one_user_def Let_def getUser_def
      js_incr_def)

text \<open>
  C4, amended: the body of the 201 response to a registration is the created user record
  as it is stored: the request body with \<open>password\<close> set to the salted hash that
  \<open>hashPassword\<close> made of the submitted password, and \<open>id\<close> set to the new id. The
  \<open>password\<close> property is present in the response and holds that hash.
\<close>

theorem register_response_is_stored_user:
  assumes "post_register c salt reqBody s = (Response 201 b, s')"
  shows "\<exists>password user.
           reqBody ''password'' = Some (JStr password) \<and>
           user = reqBody(''password'' \<mapsto> JStr (hashPassword c salt password),
                          ''id'' \<mapsto> JNum (currentUserId s)) \<and>
           b = Json_object user \<and>
           getUser (currentUserId s) s' = Some user \<and>
           user ''password'' = Some (JStr (hashPassword c salt password))"
  using assms
  by (auto simp: post_register_def createUser_def Let_def getUser_def AList.update_conv'
      split: option.splits jsval.splits)

theorem register_response_is_stored_user_witness:
  "post_register toy_crypto ''17'' ann MemStorage_new =
     (Response 201 (Json_object ann_user), one_user) \<and>
   (\<exists>password user.
       ann ''password'' = Some (JStr password) \<and>
       Json_object ann_user = Json_object user \<and>
       getUser (currentUserId MemStorage_new) one_user = Some user \<and>
       user ''password'' = Some (JStr (hashPassword toy_crypto ''17'' password)))"
proof -
  have a: "post_register toy_crypto ''17'' ann MemStorage_new =
     (Response 201 (Json_object ann_user), one_user)"
    by (rule register_ann)
  from register_response_is_stored_user [OF a] a show ?thesis
    by blast
qed




text \<open>
  What the amended C7 leaves out: a password that is not a string. For a registered
  email \<open>comparePasswords\<close> throws on it and no response is written; for an email that
  no user has, the callback fails before it looks at the password.
\<close>

lemma login_password_not_a_string:
  "post_login toy_crypto (Some (JStr ''ann@x.com'')) (Some (JNum 5)) two_users = No_response \<and>
   post_login toy_crypto (Some (JStr ''carol@x.com'')) (Some (JNum 5)) two_users =
     Response 401 (Text ''Unauthorized'')"
  by (simp add: post_login_def falsy_def verify_def comparePasswords_def getUserByEmail_def
      two_users_def ann_user_def ann_def bob_user_def bob_def strict_eq_def is_reference_def)

section \<open>Task routes\<close>

text \<open>
  C1 at its failing input. Ann (user 1) creates a task; it is stored with \<open>userId\<close> 1. Her
  \<open>PUT /api/tasks/1\<close> with the body \<open>{title: "Buy milk", userId: 2}\<close> passes
  \<open>updateTaskSchema\<close>, and the route hands \<open>req.body\<close> itself to \<open>updateTask\<close>, which
  spreads it over the stored task: the stored \<open>userId\<close> is now 2, and the task is Bob's.
\<close>

theorem put_task_rewrites_userId:
  "post_tasks 1000 (Some 1) [''title'' \<mapsto> JStr ''Buy milk''] two_users =
     (Response 201 (Json_object milk), ann_task) \<and>
   milk ''userId'' = Some (JNum 1) \<and>
   updateTaskSchema milk_update \<and>
   put_task (Some 1) (Some 1) milk_update ann_task =
     (Response 200 (Json_object (milk ++ milk_update)),
      ann_task\<lparr>tasks := [(1, milk ++ milk_update)]\<rparr>) \<and>
   (milk ++ milk_update) ''userId'' = Some (JNum 2) \<and>
   get_task (Some 2) (Some 1) (ann_task\<lparr>tasks := [(1, milk ++ milk_update)]\<rparr>) =
     Response 200 (Json_object (milk ++ milk_update)) \<and>
   get_task (Some 1) (Some 1) (ann_task\<lparr>tasks := [(1, milk ++ milk_update)]\<rparr>) =
     Response 403 (Json_message ''Forbidden'')"
proof (intro conjI)
  show "post_tasks 1000 (Some 1) [''title'' \<mapsto> JStr ''Buy milk''] two_users =
     (Response 201 (Json_object milk), ann_task)"
    by (rule ann_posts_milk)
  show "milk ''userId'' = Some (JNum 1)"
    by (simp add: milk_def)
  show "updateTaskSchema milk_update"
    by (simp add: updateTaskSchema_def is_string_def milk_update_def)
  show "put_task (Some 1) (Some 1) milk_update ann_task =
     (Response 200 (Json_object (milk ++ milk_update)),
      ann_task\<lparr>tasks := [(1, milk ++ milk_update)]\<rparr>)"
    by (simp add: put_task_def req_user_def getUser_def ann_task_def ann_user_def
        updateTaskSchema_def is_string_def getTaskById_def milk_def milk_update_def
        strict_eq_def is_reference_def updateTask_def Let_def)
  show "(milk ++ milk_update) ''userId'' = Some (JNum 2)"
    by (simp add: milk_def milk_update_def)
  show "get_task (Some 2) (Some 1) (ann_task\<lparr>tasks := [(1, milk ++ milk_update)]\<rparr>) =
     Response 200 (Json_object (milk ++ milk_update))"
    by (simp add: get_task_def req_user_def getUser_def ann_task_def bob_user_def
        getTaskById_def milk_def milk_update_def strict_eq_def is_reference_def)
  show "get_task (Some 1) (Some 1) (ann_task\<lparr>tasks := [(1, milk ++ milk_update)]\<rparr>) =
     Response 403 (Json_message ''Forbidden'')"
    by (simp add: get_task_def req_user_def getUser_def ann_task_def ann_user_def
        getTaskById_def milk_def milk_update_def strict_eq_def is_reference_def)
qed

text \<open>
  C5 at its failing input. Ann's \<open>POST /api/tasks\<close> with the body \<open>{title: "Buy milk"}\<close>
  is answered with 201 and the task that \<open>getTaskById\<close> then returns; that task has a
  \<open>createdAt\<close> and no \<open>description\<close>, and it has no \<open>status\<close> at all, where the claim
  says \<open>pending\<close>.
\<close>

theorem post_tasks_without_status:
  "post_tasks 1000 (Some 1) [''title'' \<mapsto> JStr ''Buy milk''] two_users =
     (Response 201 (Json_object milk), ann_task) \<and>
   getTaskById 1 ann_task = Some milk \<and>
   milk ''status'' = None \<and>
   milk ''status'' \<noteq> Some (JStr ''pending'') \<and>
   milk ''description'' = None \<and>
   milk ''createdAt'' = Some (JDate 1000)"
proof (intro conjI)
  show "post_tasks 1000 (Some 1) [''title'' \<mapsto> JStr ''Buy milk''] two_users =
     (Response 201 (Json_object milk), ann_task)"
    by (rule ann_posts_milk)
  show "getTaskById 1 ann_task = Some milk"
    by (simp add: getTaskById_def ann_task_def)
  show "milk ''status'' = None" "milk ''status'' \<noteq> Some (JStr ''pending'')"
    "milk ''description'' = None" "milk ''createdAt'' = Some (JDate 1000)"
    by (simp_all add: milk_def)
qed

text \<open>
  C2 as stated fails for PUT: Ann's \<open>PUT /api/tasks/2\<close> on Bob's task with a body that
  does not pass \<open>updateTaskSchema\<close> is answered with 400, not 403 or 404, because the body
  is validated before the task is looked up.
\<close>

theorem put_foreign_task_counterexample:
  "req_user (Some 1) two_tasks = Some ann_user \<and> ann_user ''id'' = Some (JNum 1) \<and>
   getTaskById 2 two_tasks = Some report \<and> report ''userId'' = Some (JNum 2) \<and>
   put_task (Some 1) (Some 2) [''title'' \<mapsto> JNum 5] two_tasks =
     (Response 400 (Json_invalid ''Invalid task data''), two_tasks) \<and>
   status (fst (put_task (Some 1) (Some 2) [''title'' \<mapsto> JNum 5] two_tasks)) \<noteq> 403 \<and>
   status (fst (put_task (Some 1) (Some 2) [''title'' \<mapsto> JNum 5] two_tasks)) \<noteq> 404"
  by (simp add: req_user_def getUser_def two_tasks_def ann_user_def getTaskById_def report_def
      put_task_def updateTaskSchema_def is_string_def)

text \<open>
  C2, amended: for an authenticated user and a task id whose task, if there is one,
  carries another \<open>userId\<close> than the user's id, GET and DELETE on \<open>/api/tasks/:id\<close> are
  answered with 403 \<open>Forbidden\<close> when the task exists and 404 \<open>Task not found\<close> when it
  does not; PUT is answered the same way when its body passes \<open>updateTaskSchema\<close>, and
  with 400 \<open>Invalid task data\<close> when it does not. The body is a message, never the task,
  and the store is left as it was.
\<close>

theorem foreign_task_requests:
  assumes "req_user sess s = Some a"
    and "case getTaskById tid s of None \<Rightarrow> True | Some t \<Rightarrow> t ''userId'' \<noteq> a ''id''"
  shows "let deny = (case getTaskById tid s of
                       None \<Rightarrow> Response 404 (Json_message ''Task not found'')
                     | Some t \<Rightarrow> Response 403 (Json_message ''Forbidden''))
         in get_task sess (Some tid) s = deny \<and>
            delete_task sess (Some tid) s = (deny, s) \<and>
            put_task sess (Some tid) reqBody s =
              (if updateTaskSchema reqBody then deny
               else Response 400 (Json_invalid ''Invalid task data''), s)"
  using assms
  by (auto simp: get_task_def delete_task_def put_task_def strict_eq_def Let_def
      split: option.splits)

theorem foreign_task_requests_witness:
  "req_user (Some 1) two_tasks = Some ann_user \<and>
   getTaskById 2 two_tasks = Some report \<and> report ''userId'' \<noteq> ann_user ''id'' \<and>
   get_task (Some 1) (Some 2) two_tasks = Response 403 (Json_message ''Forbidden'') \<and>
   delete_task (Some 1) (Some 2) two_tasks = (Response 403 (Json_message ''Forbidden''), two_tasks) \<and>
   put_task (Some 1) (Some 2) milk_update two_tasks =
     (Response 403 (Json_message ''Forbidden''), two_tasks) \<and>
   getTaskById 9 two_tasks = None \<and>
   get_task (Some 1) (Some 9) two_tasks = Response 404 (Json_message ''Task not found'')"
proof -
  have a: "req_user (Some 1) two_tasks = Some ann_user"
    by (simp add: req_user_def getUser_def two_tasks_def)
  have t: "getTaskById 2 two_tasks = Some report" "getTaskById 9 two_tasks = None"
    by (simp_all add: getTaskById_def two_tasks_def)
  have n: "report ''userId'' \<noteq> ann_user ''id''"
    by (simp add: report_def ann_user_def)
  have v: "updateTaskSchema milk_update"
    by (simp add: updateTaskSchema_def milk_update_def is_string_def)
  have b: "case getTaskById 2 two_tasks of None \<Rightarrow> True | Some t \<Rightarrow> t ''userId'' \<noteq> ann_user ''id''"
    by (simp add: t n)
  have c: "case getTaskById 9 two_tasks of None \<Rightarrow> True | Some t \<Rightarrow> t ''userId'' \<noteq> ann_user ''id''"
    by (simp add: t)
  from foreign_task_requests [OF a b, of milk_update] foreign_task_requests [OF a c, of milk_update]
    a t n v show ?thesis
    by (simp add: Let_def)
qed

end
